theory Spec2Isabelle
  imports Main
begin

section \<open>The columnar backend (ROOT TTree) as the adaptor sees it\<close>

text \<open>
  \<^verbatim>\<open>NtupleDataFormat.py\<close> wraps a ROOT \<^verbatim>\<open>TTree\<close>. The tree is an external
  collaborator, so it is a parameter of the model: a record holding what the four calls the
  adaptor makes on it answer. A branch of the loaded entry is a number (\<^verbatim>\<open>tree.run\<close>),
  a per-entry sequence of numbers (\<^verbatim>\<open>tree.rechit_pt\<close>, a \<^verbatim>\<open>std::vector\<close>), or a
  per-entry sequence of sequences (\<^verbatim>\<open>tree.simcluster_hits\<close>, a vector of vectors). The
  type \<open>'v\<close> is that of the numbers, which Python copies out of a buffer as immutable
  values; a vector inside a vector is not a value of \<open>'v\<close> but an element of \<open>Nested\<close>.
\<close>

datatype 'v branch = Scalar 'v | Vector "'v list" | Nested "'v list list"

text \<open>
  The exceptions the adaptor can raise or let through. \<open>Exception\<close> is the plain
  \<^verbatim>\<open>Exception(msg)\<close> of \<^verbatim>\<open>_checkIsValid\<close>; the others come from Python's attribute
  lookup and from indexing a vector.
\<close>

datatype pyerr =
  AttributeError string | IndexError | TypeError | OverflowError | Exception string

text \<open>
  \<open>GetEntriesFast\<close> is the entry count the tree reports, \<open>LoadTree_code j\<close> the
  return value of \<^verbatim>\<open>LoadTree(j)\<close> (negative when the entry cannot be located),
  \<open>GetEntry_bytes j\<close> the return value of \<^verbatim>\<open>GetEntry(j)\<close> (the bytes read; \<open>0\<close> or
  negative on a failed read), \<open>stored j\<close> the branches of entry \<open>j\<close> on file, and
  \<open>buffers\<close> the branch buffers in memory: the single loaded entry every view reads.
\<close>

record 'v TTree =
  GetEntriesFast :: int
  LoadTree_code :: "int \<Rightarrow> int"
  GetEntry_bytes :: "int \<Rightarrow> int"
  stored :: "int \<Rightarrow> string \<rightharpoonup> 'v branch"
  buffers :: "string \<rightharpoonup> 'v branch"

definition LoadTree :: "'v TTree \<Rightarrow> int \<Rightarrow> int" where
  "LoadTree t j = LoadTree_code t j"

text \<open>
  \<^verbatim>\<open>GetEntry(j)\<close> copies entry \<open>j\<close> into the buffers when it reads something, and
  returns the number of bytes. A failed read leaves the buffers as they were.
\<close>

definition GetEntry :: "'v TTree \<Rightarrow> int \<Rightarrow> int \<times> 'v TTree" where
  "GetEntry t j =
     (let nb = GetEntry_bytes t j
      in (nb, if 0 < nb then t\<lparr>buffers := stored t j\<rparr> else t))"

text \<open>\<^verbatim>\<open>getattr(tree, name)\<close>: the branch of the loaded entry, or \<^verbatim>\<open>AttributeError\<close>.\<close>

definition tree_getattr :: "'v TTree \<Rightarrow> string \<Rightarrow> pyerr + 'v branch" where
  "tree_getattr t name =
     (case buffers t name of None \<Rightarrow> Inl (AttributeError name) | Some b \<Rightarrow> Inr b)"

text \<open>\<^verbatim>\<open>b.size()\<close>: a sequence has it, a Python number has no such attribute.\<close>

definition branch_size :: "'v branch \<Rightarrow> pyerr + int" where
  "branch_size b =
     (case b of Scalar _ \<Rightarrow> Inl (AttributeError ''size'')
              | Vector xs \<Rightarrow> Inr (int (length xs))
              | Nested xss \<Rightarrow> Inr (int (length xss)))"

text \<open>
  The position an index \<open>i\<close> selects in a vector of \<open>len\<close> elements. The index is first
  converted to a signed 64-bit integer, which raises \<^verbatim>\<open>OverflowError\<close> when it does not
  fit; then an index from \<open>- len\<close> to \<open>- 1\<close> counts from the end, and an index outside
  \<open>- len .. len - 1\<close> raises \<^verbatim>\<open>IndexError\<close>.
\<close>

definition py_index :: "nat \<Rightarrow> int \<Rightarrow> pyerr + nat" where
  "py_index len i =
     (if i < - 9223372036854775808 \<or> 9223372036854775808 \<le> i then Inl OverflowError
      else if i < - int len \<or> int len \<le> i then Inl IndexError
      else if i < 0 then Inr (nat (int len + i))
      else Inr (nat i))"

text \<open>
  What \<^verbatim>\<open>b[i]\<close> hands to Python: a number is copied out of the buffer (\<open>Value\<close>); a
  vector inside a vector is not copied, the result is a reference to the position in the
  branch's buffer (\<open>Ref\<close>).
\<close>

datatype 'v item = Value 'v | Ref nat

text \<open>\<^verbatim>\<open>b[i]\<close>; a number is not subscriptable.\<close>

definition branch_getitem :: "'v branch \<Rightarrow> int \<Rightarrow> pyerr + 'v item" where
  "branch_getitem b i =
     (case b of
        Vector xs \<Rightarrow>
          (case py_index (length xs) i of
             Inl e \<Rightarrow> Inl e
           | Inr p \<Rightarrow> Inr (Value (xs ! p)))
      | Nested xss \<Rightarrow>
          (case py_index (length xss) i of
             Inl e \<Rightarrow> Inl e
           | Inr p \<Rightarrow> Inr (Ref p))
      | Scalar _ \<Rightarrow> Inl TypeError)"

text \<open>\<^verbatim>\<open>range(n)\<close> for an integer \<open>n\<close>: empty when \<open>n \<le> 0\<close>.\<close>

definition py_range :: "int \<Rightarrow> int list" where
  "py_range n = map int [0..<nat n]"

section \<open>\<^verbatim>\<open>_Object\<close> and \<^verbatim>\<open>_Collection\<close>\<close>

text \<open>
  The concrete classes differ only in their name, which \<^verbatim>\<open>_checkIsValid\<close> puts into its
  message. Every view keeps a reference to the one tree object, which \<^verbatim>\<open>GetEntry\<close>
  mutates in place; so a view stores no tree here, and each method that reads takes the tree
  as it is at the time of the call.
\<close>

datatype objclass = RecHit | SimCluster | LayerCluster | Trackster

fun class_name :: "objclass \<Rightarrow> string" where
  "class_name RecHit = ''RecHit''"
| "class_name SimCluster = ''SimCluster''"
| "class_name LayerCluster = ''LayerCluster''"
| "class_name Trackster = ''Trackster''"

record Object =
  o_class :: objclass
  o_index :: int
  o_prefix :: string

definition Object_init :: "objclass \<Rightarrow> int \<Rightarrow> string \<Rightarrow> Object" where
  "Object_init cls index prefix = \<lparr>o_class = cls, o_index = index, o_prefix = prefix\<rparr>"

definition isValid :: "Object \<Rightarrow> bool" where
  "isValid self = (o_index self \<noteq> - 1)"

definition index :: "Object \<Rightarrow> int" where
  "index self = o_index self"

definition checkIsValid :: "Object \<Rightarrow> pyerr + unit" where
  "checkIsValid self =
     (if \<not> isValid self then Inl (Exception (class_name (o_class self) @ '' is not valid''))
      else Inr ())"

text \<open>
  What a call of the callable returns: a number, or the contents of a vector.
\<close>

datatype 'v pyval = Num 'v | Seq "'v list"

text \<open>
  A zero-argument callable of a stateful program is a function of the state it is called
  in, here the tree at the time of the call. \<open>None\<close> stands for a call whose result the
  code does not define.
\<close>

type_synonym 'v callable = "'v TTree \<Rightarrow> 'v pyval option"

text \<open>
  Reading through a reference to position \<open>p\<close> of the buffer of branch \<open>name\<close>: the
  vector now at that position. When the buffer holds no vector there, the reference
  dangles.
\<close>

definition deref :: "'v TTree \<Rightarrow> string \<Rightarrow> nat \<Rightarrow> 'v pyval option" where
  "deref t name p =
     (case buffers t name of
        Some (Nested xss) \<Rightarrow> (if p < length xss then Some (Seq (xss ! p)) else None)
      | _ \<Rightarrow> None)"

text \<open>
  \<^verbatim>\<open>lambda: val\<close>, for the \<^verbatim>\<open>val\<close> that indexing the branch \<open>name\<close> gave. The
  closure keeps the object itself, without a copy: a number stays what it was, a reference
  is followed at each call.
\<close>

definition closure :: "string \<Rightarrow> 'v item \<Rightarrow> 'v callable" where
  "closure name val =
     (case val of
        Value v \<Rightarrow> (\<lambda>_. Some (Num v))
      | Ref p \<Rightarrow> (\<lambda>t. deref t name p))"

definition Object_getattr :: "Object \<Rightarrow> 'v TTree \<Rightarrow> string \<Rightarrow> pyerr + 'v callable" where
  "Object_getattr self t attr =
     (case checkIsValid self of Inl e \<Rightarrow> Inl e
      | Inr _ \<Rightarrow>
          (case tree_getattr t (o_prefix self @ ''_'' @ attr) of Inl e \<Rightarrow> Inl e
           | Inr b \<Rightarrow>
               (case branch_getitem b (o_index self) of Inl e \<Rightarrow> Inl e
                | Inr val \<Rightarrow> Inr (closure (o_prefix self @ ''_'' @ attr) val))))"

record Collection =
  c_sizeBranch :: string
  c_objclass :: objclass
  c_prefix :: string

definition Collection_init :: "string \<Rightarrow> objclass \<Rightarrow> string \<Rightarrow> Collection" where
  "Collection_init sizeBranch cls prefix =
     \<lparr>c_sizeBranch = sizeBranch, c_objclass = cls, c_prefix = prefix\<rparr>"

definition Collection_size :: "Collection \<Rightarrow> 'v TTree \<Rightarrow> pyerr + int" where
  "Collection_size self t =
     (case tree_getattr t (c_sizeBranch self) of Inl e \<Rightarrow> Inl e | Inr b \<Rightarrow> branch_size b)"

text \<open>\<^verbatim>\<open>__getitem__\<close> has no branch that raises: it constructs the object.\<close>

definition Collection_getitem :: "Collection \<Rightarrow> int \<Rightarrow> Object" where
  "Collection_getitem self k = Object_init (c_objclass self) k (c_prefix self)"

text \<open>The generator \<^verbatim>\<open>__iter__\<close>, as the list of the objects it yields.\<close>

definition Collection_iter :: "Collection \<Rightarrow> 'v TTree \<Rightarrow> pyerr + Object list" where
  "Collection_iter self t =
     (case Collection_size self t of Inl e \<Rightarrow> Inl e
      | Inr n \<Rightarrow> Inr (map (\<lambda>k. Object_init (c_objclass self) k (c_prefix self)) (py_range n)))"

definition RecHits :: "string \<Rightarrow> Collection" where
  "RecHits prefix = Collection_init (prefix @ ''_pt'') RecHit prefix"

definition SimClusters :: "string \<Rightarrow> Collection" where
  "SimClusters prefix = Collection_init (prefix @ ''_pt'') SimCluster prefix"

definition LayerClusters :: "string \<Rightarrow> Collection" where
  "LayerClusters prefix = Collection_init (prefix @ ''_pt'') LayerCluster prefix"

definition Tracksters :: "string \<Rightarrow> Collection" where
  "Tracksters prefix = Collection_init (prefix @ ''_Id'') Trackster prefix"

section \<open>\<^verbatim>\<open>Event\<close> and \<^verbatim>\<open>HGCalNtuple\<close>\<close>

record Event =
  e_entry :: int

definition Event_init :: "int \<Rightarrow> Event" where
  "Event_init j = \<lparr>e_entry = j\<rparr>"

definition entry :: "Event \<Rightarrow> int" where
  "entry self = e_entry self"

definition event :: "Event \<Rightarrow> 'v TTree \<Rightarrow> pyerr + 'v branch" where
  "event self t = tree_getattr t ''event''"

definition lumi :: "Event \<Rightarrow> 'v TTree \<Rightarrow> pyerr + 'v branch" where
  "lumi self t = tree_getattr t ''lumi''"

definition run :: "Event \<Rightarrow> 'v TTree \<Rightarrow> pyerr + 'v branch" where
  "run self t = tree_getattr t ''run''"

definition recHits :: "Event \<Rightarrow> string \<Rightarrow> Collection" where
  "recHits self prefix = RecHits prefix"

definition layerClusters :: "Event \<Rightarrow> string \<Rightarrow> Collection" where
  "layerClusters self prefix = LayerClusters prefix"

definition simClusters :: "Event \<Rightarrow> string \<Rightarrow> Collection" where
  "simClusters self prefix = SimClusters prefix"

definition tracksters :: "Event \<Rightarrow> string \<Rightarrow> Collection" where
  "tracksters self prefix = Tracksters prefix"

record 'v HGCalNtuple =
  n_tree :: "'v TTree"
  n_entries :: int

text \<open>The constructor, from the tree that \<^verbatim>\<open>TFile.Open(fileName).Get(tree)\<close> gave.\<close>

definition HGCalNtuple_init :: "'v TTree \<Rightarrow> 'v HGCalNtuple" where
  "HGCalNtuple_init t = \<lparr>n_tree = t, n_entries = GetEntriesFast t\<rparr>"

definition nevents :: "'v HGCalNtuple \<Rightarrow> int" where
  "nevents self = n_entries self"

text \<open>
  The body of the loop of \<^verbatim>\<open>__iter__\<close> over the remaining values of \<^verbatim>\<open>jentry\<close>:
  \<^verbatim>\<open>break\<close> when \<^verbatim>\<open>LoadTree\<close> is negative, \<^verbatim>\<open>continue\<close> when \<^verbatim>\<open>GetEntry\<close> read
  nothing, else yield. The result is the list of the events yielded, each with the tree as
  it is when the consumer receives the event, and the tree when the generator ends.
\<close>

fun iter_loop :: "'v TTree \<Rightarrow> int list \<Rightarrow> (Event \<times> 'v TTree) list \<times> 'v TTree" where
  "iter_loop t [] = ([], t)"
| "iter_loop t (jentry # rest) =
     (let ientry = LoadTree t jentry
      in if ientry < 0 then ([], t)
         else (case GetEntry t jentry of
                 (nb, t') \<Rightarrow>
                   if nb \<le> 0 then iter_loop t' rest
                   else (case iter_loop t' rest of
                           (evs, t'') \<Rightarrow> ((Event_init jentry, t') # evs, t''))))"

definition HGCalNtuple_iter ::
  "'v HGCalNtuple \<Rightarrow> (Event \<times> 'v TTree) list \<times> 'v HGCalNtuple" where
  "HGCalNtuple_iter self =
     (case iter_loop (n_tree self) (py_range (n_entries self)) of
        (evs, t') \<Rightarrow> (evs, self\<lparr>n_tree := t'\<rparr>))"

text \<open>
  \<^verbatim>\<open>getEvent\<close>: \<^verbatim>\<open>None\<close> when \<^verbatim>\<open>LoadTree\<close> is negative. The statement under
  \<^verbatim>\<open>if nb <= 0:\<close> is the bare expression \<^verbatim>\<open>None\<close>, which does nothing, so both
  branches go on to \<^verbatim>\<open>return Event(self._tree, ientry)\<close>.
\<close>

definition getEvent :: "'v HGCalNtuple \<Rightarrow> int \<Rightarrow> Event option \<times> 'v HGCalNtuple" where
  "getEvent self i =
     (let ientry = LoadTree (n_tree self) i
      in if ientry < 0 then (None, self)
         else (case GetEntry (n_tree self) ientry of
                 (nb, t') \<Rightarrow>
                   (let _ = (if nb \<le> 0 then () else ())
                    in (Some (Event_init ientry), self\<lparr>n_tree := t'\<rparr>))))"

section \<open>Clients of the interface, and the spec's reading of a collection's length\<close>

text \<open>
  The operations of an \<^verbatim>\<open>HGCalNtuple\<close> that change anything: running the generator of
  \<^verbatim>\<open>__iter__\<close> to its end, and \<^verbatim>\<open>getEvent(i)\<close>. The reads through a view are
  functions of the tree and return no new state.
\<close>

datatype action = Iterate | GetEvent int

fun perform :: "'v HGCalNtuple \<Rightarrow> action \<Rightarrow> 'v HGCalNtuple" where
  "perform nt Iterate = snd (HGCalNtuple_iter nt)"
| "perform nt (GetEvent i) = snd (getEvent nt i)"

text \<open>
  The spec's reading of \<^verbatim>\<open>length()\<close>, to be compared with \<open>Collection_size\<close>: the
  size field holds the element count as its value.
\<close>

definition spec_length :: "Collection \<Rightarrow> int TTree \<Rightarrow> pyerr + int" where
  "spec_length self t =
     (case tree_getattr t (c_sizeBranch self) of Inl e \<Rightarrow> Inl e
      | Inr (Scalar n) \<Rightarrow> Inr n
      | Inr (Vector _) \<Rightarrow> Inl TypeError
      | Inr (Nested _) \<Rightarrow> Inl TypeError)"

section \<open>A store of five entries whose entry 3 cannot be read\<close>

text \<open>
  Entry 0 holds two hits and two sim clusters, every other entry three of each;
  \<^verbatim>\<open>simcluster_hits\<close> is a vector of vectors. \<^verbatim>\<open>GetEntry(3)\<close> reads nothing.
\<close>

definition demo_stored :: "int \<Rightarrow> string \<rightharpoonup> int branch" where
  "demo_stored j =
     (if j = 0 then
        map_of [(''run'', Scalar 1), (''lumi'', Scalar 7), (''event'', Scalar 100),
                (''rechit_pt'', Vector [10, 20]), (''rechit_energy'', Vector [15, 25]),
                (''simcluster_pt'', Vector [11, 12]),
                (''simcluster_hits'', Nested [[1, 2], [3, 4]])]
      else
        map_of [(''run'', Scalar 1), (''lumi'', Scalar 7), (''event'', Scalar (100 + j)),
                (''rechit_pt'', Vector [30, 40, 50]), (''rechit_energy'', Vector [35, 45, 55]),
                (''simcluster_pt'', Vector [13, 14, 15]),
                (''simcluster_hits'', Nested [[5, 6], [7, 8], [9]])])"

definition demo_tree :: "int TTree" where
  "demo_tree =
     \<lparr>GetEntriesFast = 5,
      LoadTree_code = (\<lambda>j. if 0 \<le> j \<and> j < 5 then j else - 2),
      GetEntry_bytes = (\<lambda>j. if 0 \<le> j \<and> j < 5 \<and> j \<noteq> 3 then 64 else 0),
      stored = demo_stored,
      buffers = Map.empty\<rparr>"

definition demo_ntuple :: "int HGCalNtuple" where
  "demo_ntuple = HGCalNtuple_init demo_tree"

text \<open>
The tree after \<^verbatim>\<open>getEvent(0)\<close>, and after \<^verbatim>\<open>getEvent(0)\<close> then \<^verbatim>\<open>getEvent(1)\<close>.
\<close>

definition demo_at_0 :: "int TTree" where
  "demo_at_0 = n_tree (snd (getEvent demo_ntuple 0))"

definition demo_at_1 :: "int TTree" where
  "demo_at_1 = n_tree (snd (getEvent (snd (getEvent demo_ntuple 0)) 1))"

text \<open>
A tree whose loaded entry holds the count of the group \<^verbatim>\<open>hit\<close> as a scalar.
\<close>

definition counted_tree :: "int TTree" where
  "counted_tree = demo_tree\<lparr>buffers := map_of [(''hit_pt'', Scalar 2)]\<rparr>"

section \<open>Facts of the backend and of the example store\<close>

lemma GetEntry_fields:
  "LoadTree_code (snd (GetEntry t j)) = LoadTree_code t"
  "GetEntry_bytes (snd (GetEntry t j)) = GetEntry_bytes t"
  "stored (snd (GetEntry t j)) = stored t"
  "GetEntriesFast (snd (GetEntry t j)) = GetEntriesFast t"
  by (simp_all add: GetEntry_def Let_def)

lemma GetEntry_fst: "fst (GetEntry t j) = GetEntry_bytes t j"
  by (simp add: GetEntry_def Let_def)

lemma GetEntry_buffers:
  "0 < GetEntry_bytes t j \<Longrightarrow> buffers (snd (GetEntry t j)) = stored t j"
  by (simp add: GetEntry_def Let_def)

lemma py_range_5: "py_range 5 = [0, 1, 2, 3, 4]"
  by (simp add: py_range_def upt_rec)

lemma demo_at_0_buffers: "buffers demo_at_0 = demo_stored 0"
  by (simp add: demo_at_0_def demo_ntuple_def HGCalNtuple_init_def getEvent_def LoadTree_def
      GetEntry_def demo_tree_def)

lemma demo_at_1_buffers: "buffers demo_at_1 = demo_stored 1"
  by (simp add: demo_at_1_def demo_ntuple_def HGCalNtuple_init_def getEvent_def LoadTree_def
      GetEntry_def demo_tree_def)

lemma demo_first_event: "fst (getEvent demo_ntuple 0) = Some (Event_init 0)"
  by (simp add: demo_ntuple_def HGCalNtuple_init_def getEvent_def LoadTree_def
      GetEntry_def demo_tree_def)

lemma getEvent_loaded:
  assumes "0 \<le> LoadTree_code (n_tree nt) j"
    and "0 < GetEntry_bytes (n_tree nt) (LoadTree_code (n_tree nt) j)"
  shows "fst (getEvent nt j) = Some (Event_init (LoadTree_code (n_tree nt) j))"
    and "buffers (n_tree (snd (getEvent nt j))) = stored (n_tree nt) (LoadTree_code (n_tree nt) j)"
  using assms by (simp_all add: getEvent_def LoadTree_def GetEntry_def Let_def)

lemma iter_loop_yields:
  "map (\<lambda>(e, t'). (entry e, buffers t')) (fst (iter_loop t js)) =
   map (\<lambda>j. (j, stored t j))
     (filter (\<lambda>j. 0 < GetEntry_bytes t j) (takeWhile (\<lambda>j. 0 \<le> LoadTree_code t j) js))"
proof (induction js arbitrary: t)
  case Nil
  show ?case by simp
next
  case (Cons j js)
  obtain nb t' where g: "GetEntry t j = (nb, t')" by (cases "GetEntry t j")
  have nb: "nb = GetEntry_bytes t j" using GetEntry_fst [of t j] g by simp
  have t': "t' = snd (GetEntry t j)" using g by simp
  have ih: "map (\<lambda>(e, t'). (entry e, buffers t')) (fst (iter_loop t' js)) =
   map (\<lambda>j. (j, stored t j))
     (filter (\<lambda>j. 0 < GetEntry_bytes t j) (takeWhile (\<lambda>j. 0 \<le> LoadTree_code t j) js))"
    using Cons.IH [of t'] by (simp add: t' GetEntry_fields)
  show ?case
  proof (cases "LoadTree_code t j < 0")
    case True
    then show ?thesis by (simp add: LoadTree_def)
  next
    case False
    show ?thesis
    proof (cases "nb \<le> 0")
      case True
      with False g ih nb show ?thesis by (simp add: LoadTree_def)
    next
      case False
      have b: "buffers t' = stored t j" using False nb t' GetEntry_buffers [of t j] by simp
      from False \<open>\<not> LoadTree_code t j < 0\<close> g ih nb b show ?thesis
        by (simp add: LoadTree_def entry_def Event_init_def case_prod_unfold)
    qed
  qed
qed

section \<open>Sequential iteration over the entries\<close>

text \<open>
  C1, as the spec states it: over a store of five entries whose entry 3 cannot be read,
  iteration yields the entries 0, 1, 2 and stops. The code yields 0, 1, 2 and 4: a failed
  \<^verbatim>\<open>GetEntry\<close> takes the \<^verbatim>\<open>continue\<close> branch.
\<close>

theorem iter_stops_counterexample:
  "GetEntry_bytes demo_tree 3 \<le> 0 \<and>
   map (\<lambda>p. entry (fst p)) (fst (HGCalNtuple_iter (HGCalNtuple_init demo_tree))) = [0, 1, 2, 4]"
  by (simp add: HGCalNtuple_iter_def HGCalNtuple_init_def demo_tree_def py_range_5
      LoadTree_def GetEntry_def entry_def Event_init_def)

text \<open>
  C1, amended: the generator yields, in ascending order, every entry of
  \<^verbatim>\<open>range(entries)\<close> that lies before the first entry whose \<^verbatim>\<open>LoadTree\<close> is negative
  and whose \<^verbatim>\<open>GetEntry\<close> read something; an entry whose \<^verbatim>\<open>GetEntry\<close> returns
  \<open>0\<close> or less is skipped and iteration goes on. Each event is handed over with its own
  entry loaded, and no error reaches the caller.
\<close>

theorem iter_skips_unreadable:
  "map (\<lambda>(e, t'). (entry e, buffers t')) (fst (HGCalNtuple_iter self)) =
   map (\<lambda>j. (j, stored (n_tree self) j))
     (filter (\<lambda>j. 0 < GetEntry_bytes (n_tree self) j)
        (takeWhile (\<lambda>j. 0 \<le> LoadTree_code (n_tree self) j) (py_range (n_entries self))))"
  using iter_loop_yields [of "n_tree self" "py_range (n_entries self)"]
  by (simp add: HGCalNtuple_iter_def case_prod_unfold)

theorem iter_skips_unreadable_witness:
  "map (\<lambda>(e, t'). (entry e, buffers t')) (fst (HGCalNtuple_iter demo_ntuple)) =
   [(0, demo_stored 0), (1, demo_stored 1), (2, demo_stored 2), (4, demo_stored 4)]"
  using iter_skips_unreadable [of demo_ntuple]
  by (simp add: demo_ntuple_def HGCalNtuple_init_def demo_tree_def py_range_5)

section \<open>Views after another entry is loaded\<close>

text \<open>
  C2, as the spec states it: a read through a view bound to entry 0, after entry 1 is
  loaded, fails. In the code the event number read through the event of entry 0 is then
  101, the number of entry 1, and the energy of hit 1 is 45, that of entry 1.
\<close>

theorem stale_view_counterexample:
  "fst (getEvent demo_ntuple 0) = Some (Event_init 0) \<and>
   entry (Event_init 0) = 0 \<and>
   event (Event_init 0) demo_at_0 = Inr (Scalar 100) \<and>
   event (Event_init 0) demo_at_1 = Inr (Scalar 101) \<and>
   Object_getattr (Collection_getitem (recHits (Event_init 0) ''rechit'') 1) demo_at_0 ''energy''
     = Inr (\<lambda>_. Some (Num 25)) \<and>
   Object_getattr (Collection_getitem (recHits (Event_init 0) ''rechit'') 1) demo_at_1 ''energy''
     = Inr (\<lambda>_. Some (Num 45))"
  by (simp add: demo_first_event entry_def Event_init_def event_def tree_getattr_def
      demo_at_0_buffers demo_at_1_buffers demo_stored_def Object_getattr_def checkIsValid_def
      isValid_def Collection_getitem_def recHits_def RecHits_def Collection_init_def
      Object_init_def branch_getitem_def py_index_def closure_def)

text \<open>
  C2, amended: no accessor compares the entry a view was made for with the loaded entry.
  After \<^verbatim>\<open>getEvent(j)\<close> has loaded entry \<open>j'\<close>, a read through any event \<open>ev\<close>,
  collection \<open>c\<close> or object \<open>ob\<close>, whatever entry it was made for, answers from the
  branches of entry \<open>j'\<close>; \<^verbatim>\<open>entry()\<close> alone keeps the entry the event was made for.
\<close>

theorem reads_follow_loaded_entry:
  assumes "0 \<le> LoadTree_code (n_tree nt) j"
    and "0 < GetEntry_bytes (n_tree nt) (LoadTree_code (n_tree nt) j)"
    and "j' = LoadTree_code (n_tree nt) j"
    and "t' = n_tree (snd (getEvent nt j))"
  shows "fst (getEvent nt j) = Some (Event_init j') \<and>
    buffers t' = stored (n_tree nt) j' \<and>
    entry ev = e_entry ev \<and>
    run ev t' = tree_getattr t' ''run'' \<and>
    lumi ev t' = tree_getattr t' ''lumi'' \<and>
    event ev t' = tree_getattr t' ''event'' \<and>
    tree_getattr t' name =
      (case stored (n_tree nt) j' name of
         None \<Rightarrow> Inl (AttributeError name) | Some b \<Rightarrow> Inr b) \<and>
    Collection_size c t' =
      (case stored (n_tree nt) j' (c_sizeBranch c) of
         None \<Rightarrow> Inl (AttributeError (c_sizeBranch c)) | Some b \<Rightarrow> branch_size b) \<and>
    Object_getattr ob t' attr =
      (case checkIsValid ob of Inl e \<Rightarrow> Inl e
       | Inr _ \<Rightarrow>
          (case stored (n_tree nt) j' (o_prefix ob @ ''_'' @ attr) of
             None \<Rightarrow> Inl (AttributeError (o_prefix ob @ ''_'' @ attr))
           | Some b \<Rightarrow>
               (case branch_getitem b (o_index ob) of Inl e \<Rightarrow> Inl e
                | Inr val \<Rightarrow> Inr (closure (o_prefix ob @ ''_'' @ attr) val))))"
proof -
  have b: "buffers t' = stored (n_tree nt) j'"
    using getEvent_loaded(2) [OF assms(1,2)] assms(3,4) by simp
  have e: "fst (getEvent nt j) = Some (Event_init j')"
    using getEvent_loaded(1) [OF assms(1,2)] assms(3) by simp
  show ?thesis
    using b e
    by (simp add: entry_def run_def lumi_def event_def tree_getattr_def Collection_size_def
        Object_getattr_def split: option.splits sum.splits)
qed

theorem reads_follow_loaded_entry_witness:
  "fst (getEvent (snd (getEvent demo_ntuple 0)) 1) = Some (Event_init 1) \<and>
   entry (Event_init 0) = 0 \<and>
   event (Event_init 0) demo_at_1 = Inr (Scalar 101) \<and>
   Collection_size (recHits (Event_init 0) ''rechit'') demo_at_1 = Inr 3 \<and>
   Object_getattr (Collection_getitem (recHits (Event_init 0) ''rechit'') 1) demo_at_1 ''energy''
     = Inr (\<lambda>_. Some (Num 45))"
proof -
  have t: "n_tree (snd (getEvent demo_ntuple 0)) = demo_tree\<lparr>buffers := demo_stored 0\<rparr>"
    by (simp add: demo_ntuple_def HGCalNtuple_init_def getEvent_def LoadTree_def
      GetEntry_def demo_tree_def)
  have h1: "0 \<le> LoadTree_code (n_tree (snd (getEvent demo_ntuple 0))) 1"
    by (simp add: t demo_tree_def)
  have h2: "0 < GetEntry_bytes (n_tree (snd (getEvent demo_ntuple 0)))
      (LoadTree_code (n_tree (snd (getEvent demo_ntuple 0))) 1)"
    by (simp add: t demo_tree_def)
  have h3: "1 = LoadTree_code (n_tree (snd (getEvent demo_ntuple 0))) 1"
    by (simp add: t demo_tree_def)
  have h4: "demo_at_1 = n_tree (snd (getEvent (snd (getEvent demo_ntuple 0)) 1))"
    by (simp add: demo_at_1_def)
  have s: "stored (n_tree (snd (getEvent demo_ntuple 0))) = demo_stored"
    by (simp add: t demo_tree_def)
  show ?thesis
    using reads_follow_loaded_entry [OF h1 h2 h3 h4, of "Event_init 0" "''event''"
        "recHits (Event_init 0) ''rechit''"
        "Collection_getitem (recHits (Event_init 0) ''rechit'') 1" "''energy''"]
    by (simp add: s demo_stored_def entry_def Event_init_def recHits_def RecHits_def
        Collection_init_def Collection_getitem_def Object_init_def checkIsValid_def isValid_def
        branch_size_def branch_getitem_def py_index_def closure_def)
qed

section \<open>Random access\<close>

text \<open>
  C3: \<^verbatim>\<open>getEvent\<close> on an entry that cannot be read. The code returns an event for
  entry 3 of the example store, whose \<^verbatim>\<open>GetEntry\<close> reads nothing.
\<close>

theorem getEvent_short_read:
  "GetEntry_bytes (n_tree demo_ntuple) 3 \<le> 0 \<and>
   fst (getEvent demo_ntuple 3) = Some (Event_init 3)"
  by (simp add: demo_ntuple_def HGCalNtuple_init_def getEvent_def LoadTree_def
      GetEntry_def demo_tree_def)

section \<open>Collections\<close>

text \<open>
  C4, as the spec states it: \<^verbatim>\<open>__getitem__\<close> fails for an index outside
  \<open>0 .. length - 1\<close>. With two hits loaded, index 7 gives a valid object of index 7, whose
  attribute read then raises \<^verbatim>\<open>IndexError\<close>; index \<open>- 2\<close> gives an object that reads
  the first hit.
\<close>

theorem getitem_unchecked_counterexample:
  "Collection_size (RecHits ''rechit'') demo_at_0 = Inr 2 \<and>
   index (Collection_getitem (RecHits ''rechit'') 7) = 7 \<and>
   isValid (Collection_getitem (RecHits ''rechit'') 7) \<and>
   Object_getattr (Collection_getitem (RecHits ''rechit'') 7) demo_at_0 ''energy''
     = Inl IndexError \<and>
   index (Collection_getitem (RecHits ''rechit'') (- 2)) = - 2 \<and>
   Object_getattr (Collection_getitem (RecHits ''rechit'') (- 2)) demo_at_0 ''energy''
     = Inr (\<lambda>_. Some (Num 15))"
  by (simp add: Collection_size_def tree_getattr_def branch_size_def index_def isValid_def
      demo_at_0_buffers demo_stored_def Object_getattr_def checkIsValid_def
      Collection_getitem_def RecHits_def Collection_init_def
      Object_init_def branch_getitem_def py_index_def closure_def)

text \<open>
  C4, amended: \<^verbatim>\<open>__getitem__\<close> makes no range check; for every integer \<open>k\<close> it
  returns an object whose \<^verbatim>\<open>index()\<close> is \<open>k\<close>, whose prefix is the collection's and
  whose class is the collection's object class.
\<close>

theorem getitem_any_index:
  "index (Collection_getitem self k) = k \<and>
   o_prefix (Collection_getitem self k) = c_prefix self \<and>
   o_class (Collection_getitem self k) = c_objclass self"
  by (simp add: Collection_getitem_def Object_init_def index_def)

theorem getitem_any_index_witness:
  "index (Collection_getitem (RecHits ''rechit'') 1) = 1 \<and>
   o_prefix (Collection_getitem (RecHits ''rechit'') 1) = ''rechit'' \<and>
   o_class (Collection_getitem (RecHits ''rechit'') 1) = RecHit"
  using getitem_any_index [of "RecHits ''rechit''" 1]
  by (simp add: RecHits_def Collection_init_def)

text \<open>
  C5, as the spec states it: \<^verbatim>\<open>size()\<close> is the value of the size field, which holds
  the count. Where the size branch holds the count 2 as its value, the code raises
  \<^verbatim>\<open>AttributeError\<close>; in the example store the size branch \<^verbatim>\<open>rechit_pt\<close> holds the
  sequence 30, 40, 50 and \<^verbatim>\<open>size()\<close> is 3, the length of that sequence.
\<close>

theorem size_counterexample:
  "spec_length (RecHits ''hit'') counted_tree = Inr 2 \<and>
   Collection_size (RecHits ''hit'') counted_tree = Inl (AttributeError ''size'') \<and>
   tree_getattr demo_at_1 (c_sizeBranch (RecHits ''rechit'')) = Inr (Vector [30, 40, 50]) \<and>
   Collection_size (RecHits ''rechit'') demo_at_1 = Inr 3"
  by (simp add: spec_length_def Collection_size_def tree_getattr_def branch_size_def
      counted_tree_def demo_at_1_buffers demo_stored_def RecHits_def Collection_init_def)

text \<open>
  C5, amended: \<^verbatim>\<open>size()\<close> is the number of elements of the sequence that the size
  branch holds in the loaded entry; the size branch is \<^verbatim>\<open>prefix_pt\<close> for hits, sim
  clusters and layer clusters, and \<^verbatim>\<open>prefix_Id\<close> for tracksters.
\<close>

theorem size_is_sequence_length:
  "(buffers t (c_sizeBranch self) = Some (Vector xs) \<longrightarrow>
      Collection_size self t = Inr (int (length xs))) \<and>
   c_sizeBranch (RecHits p) = p @ ''_pt'' \<and>
   c_sizeBranch (SimClusters p) = p @ ''_pt'' \<and>
   c_sizeBranch (LayerClusters p) = p @ ''_pt'' \<and>
   c_sizeBranch (Tracksters p) = p @ ''_Id''"
  by (simp add: Collection_size_def tree_getattr_def branch_size_def RecHits_def
      SimClusters_def LayerClusters_def Tracksters_def Collection_init_def)

theorem size_is_sequence_length_witness:
  "buffers demo_at_1 (c_sizeBranch (RecHits ''rechit'')) = Some (Vector [30, 40, 50]) \<and>
   Collection_size (RecHits ''rechit'') demo_at_1 = Inr 3"
  using size_is_sequence_length [of demo_at_1 "RecHits ''rechit''" "[30, 40, 50]" "''rechit''"]
  by (simp add: demo_at_1_buffers demo_stored_def)

text \<open>
  C7: when \<^verbatim>\<open>size()\<close> is \<open>n\<close>, the generator \<^verbatim>\<open>__iter__\<close> yields \<open>n\<close> objects,
  the objects \<^verbatim>\<open>__getitem__\<close> gives for \<open>0 .. n - 1\<close>, with indices ascending; it
  reads the size from the tree it is started on, so a fresh start on unchanged buffers
  yields the same objects.
\<close>

theorem collection_iter_indices:
  assumes "Collection_size self t = Inr n"
  shows "\<exists>objs. Collection_iter self t = Inr objs \<and>
           objs = map (Collection_getitem self) (py_range n) \<and>
           map index objs = map int [0..<nat n] \<and>
           length objs = nat n \<and>
           sorted_wrt (<) (map index objs) \<and>
           (\<forall>t'. buffers t' = buffers t \<longrightarrow> Collection_iter self t' = Inr objs)"
proof -
  let ?objs = "map (Collection_getitem self) (py_range n)"
  have it: "Collection_iter self t = Inr ?objs"
    using assms by (simp add: Collection_iter_def Collection_getitem_def)
  have ix: "map index ?objs = map int [0..<nat n]"
    by (simp add: py_range_def Collection_getitem_def Object_init_def index_def comp_def)
  have so: "sorted_wrt (<) (map int [0..<nat n])"
    by (simp add: sorted_wrt_map)
  have len: "length ?objs = nat n"
    by (simp add: py_range_def)
  have same: "Collection_iter self t' = Inr ?objs" if "buffers t' = buffers t" for t'
  proof -
    have "Collection_iter self t' = Collection_iter self t"
      using that by (simp add: Collection_iter_def Collection_size_def tree_getattr_def)
    then show ?thesis using it by (simp only:)
  qed
  have "Collection_iter self t = Inr ?objs \<and>
           ?objs = map (Collection_getitem self) (py_range n) \<and>
           map index ?objs = map int [0..<nat n] \<and>
           length ?objs = nat n \<and>
           sorted_wrt (<) (map index ?objs) \<and>
           (\<forall>t'. buffers t' = buffers t \<longrightarrow> Collection_iter self t' = Inr ?objs)"
    using it ix so len same by (intro conjI allI impI) (simp_all only:)
  then show ?thesis by (rule exI)
qed

theorem collection_iter_indices_witness:
  "Collection_size (RecHits ''rechit'') demo_at_1 = Inr 3 \<and>
   (\<exists>objs. Collection_iter (RecHits ''rechit'') demo_at_1 = Inr objs \<and>
      map index objs = [0, 1, 2])"
proof -
  have h: "Collection_size (RecHits ''rechit'') demo_at_1 = Inr 3"
    by (simp add: Collection_size_def tree_getattr_def branch_size_def
        demo_at_1_buffers demo_stored_def RecHits_def Collection_init_def)
  have u: "map int [0..<nat 3] = [0, 1, 2]"
    by (simp add: upt_rec)
  obtain objs where o: "Collection_iter (RecHits ''rechit'') demo_at_1 = Inr objs"
      "map index objs = map int [0..<nat 3]"
    using collection_iter_indices [OF h] by blast
  show ?thesis
    using h o u by simp
qed

section \<open>Objects\<close>

text \<open>
  C6: an object of index \<open>- 1\<close> is not valid and every attribute read on it raises the
  plain \<^verbatim>\<open>Exception\<close> of \<^verbatim>\<open>_checkIsValid\<close>, whether or not the branch exists; a
  valid object whose branch does not exist raises \<^verbatim>\<open>AttributeError\<close>, which is a
  different exception.
\<close>

theorem invalid_record_error:
  "(o_index self = - 1 \<longrightarrow>
      \<not> isValid self \<and>
      Object_getattr self t attr
        = Inl (Exception (class_name (o_class self) @ '' is not valid''))) \<and>
   (o_index self \<noteq> - 1 \<and> buffers t (o_prefix self @ ''_'' @ attr) = None \<longrightarrow>
      Object_getattr self t attr = Inl (AttributeError (o_prefix self @ ''_'' @ attr))) \<and>
   Exception msg \<noteq> AttributeError name"
  by (simp add: Object_getattr_def checkIsValid_def isValid_def tree_getattr_def)

theorem invalid_record_error_witness:
  "\<not> isValid (Object_init RecHit (- 1) ''rechit'') \<and>
   Object_getattr (Object_init RecHit (- 1) ''rechit'') demo_at_0 ''energy''
     = Inl (Exception ''RecHit is not valid'') \<and>
   Object_getattr (Object_init RecHit (- 1) ''rechit'') demo_at_0 ''nosuch''
     = Inl (Exception ''RecHit is not valid'') \<and>
   Object_getattr (Object_init RecHit 0 ''rechit'') demo_at_0 ''nosuch''
     = Inl (AttributeError ''rechit_nosuch'')"
  using invalid_record_error [of "Object_init RecHit (- 1) ''rechit''" demo_at_0 "''energy''"]
    invalid_record_error [of "Object_init RecHit (- 1) ''rechit''" demo_at_0 "''nosuch''"]
    invalid_record_error [of "Object_init RecHit 0 ''rechit''" demo_at_0 "''nosuch''"]
  by (simp add: Object_init_def demo_at_0_buffers demo_stored_def)

text \<open>
  C9, as the spec states it: for every valid record and attribute name the read returns a
  callable, and every later call returns the value captured at the lookup. A valid record
  whose branch is missing gets \<^verbatim>\<open>AttributeError\<close> and no callable. On the vector of
  vectors \<^verbatim>\<open>simcluster_hits\<close> the callable looked up with entry 0 loaded returns
  3, 4 and, once entry 1 is loaded, 7, 8.
\<close>

theorem getattr_capture_counterexample:
  "isValid (Object_init SimCluster 1 ''simcluster'') \<and>
   Object_getattr (Object_init SimCluster 1 ''simcluster'') demo_at_0 ''nosuch''
     = Inl (AttributeError ''simcluster_nosuch'') \<and>
   Object_getattr (Object_init SimCluster 1 ''simcluster'') demo_at_0 ''hits''
     = Inr (closure ''simcluster_hits'' (Ref 1)) \<and>
   closure ''simcluster_hits'' (Ref 1) demo_at_0 = Some (Seq [3, 4]) \<and>
   closure ''simcluster_hits'' (Ref 1) demo_at_1 = Some (Seq [7, 8 :: int])"
  by (simp add: Object_getattr_def checkIsValid_def isValid_def tree_getattr_def
      demo_at_0_buffers demo_at_1_buffers demo_stored_def Object_init_def
      branch_getitem_def py_index_def closure_def deref_def)

text \<open>
  C9, amended: for a valid record and an attribute name whose branch exists in the loaded
  entry and whose indexing succeeds, the read returns a callable and not the raw value;
  when the element is a number, every call of that callable returns the number read at the
  lookup, whatever entry is loaded at the time of the call.
\<close>

theorem getattr_captures_number:
  assumes "isValid self"
    and "buffers t (o_prefix self @ ''_'' @ attr) = Some b"
    and "branch_getitem b (o_index self) = Inr val"
  shows "\<exists>f. Object_getattr self t attr = Inr f \<and>
           (\<forall>v. val = Value v \<longrightarrow> (\<forall>t'. f t' = Some (Num v)))"
  using assms
  by (simp add: Object_getattr_def checkIsValid_def tree_getattr_def closure_def)

theorem getattr_captures_number_witness:
  "\<exists>f. Object_getattr (Object_init RecHit 1 ''rechit'') demo_at_0 ''energy'' = Inr f \<and>
       f demo_at_0 = Some (Num 25) \<and> f demo_at_1 = Some (Num 25) \<and>
       Object_getattr (Object_init RecHit 1 ''rechit'') demo_at_1 ''energy''
         = Inr (\<lambda>_. Some (Num 45))"
proof -
  have h1: "isValid (Object_init RecHit 1 ''rechit'')"
    by (simp add: isValid_def Object_init_def)
  have h2: "buffers demo_at_0 (o_prefix (Object_init RecHit 1 ''rechit'') @ ''_'' @ ''energy'')
      = Some (Vector [15, 25])"
    by (simp add: demo_at_0_buffers demo_stored_def Object_init_def)
  have h3: "branch_getitem (Vector [15, 25 :: int]) (o_index (Object_init RecHit 1 ''rechit''))
      = Inr (Value 25)"
    by (simp add: branch_getitem_def py_index_def Object_init_def)
  have later: "Object_getattr (Object_init RecHit 1 ''rechit'') demo_at_1 ''energy''
      = Inr (\<lambda>_. Some (Num 45))"
    by (simp add: Object_getattr_def checkIsValid_def isValid_def tree_getattr_def
        demo_at_1_buffers demo_stored_def Object_init_def branch_getitem_def py_index_def
        closure_def)
  obtain f where f: "Object_getattr (Object_init RecHit 1 ''rechit'') demo_at_0 ''energy'' = Inr f"
      "\<forall>v. Value 25 = Value v \<longrightarrow> (\<forall>t'. f t' = Some (Num v))"
    using getattr_captures_number [OF h1 h2 h3] by blast
  have "f demo_at_0 = Some (Num 25)" "f demo_at_1 = Some (Num 25)"
    using f(2) by simp_all
  with f(1) later show ?thesis by blast
qed

text \<open>
  C10, as the spec states it: an attribute read on a record of any negative index other
  than \<open>- 1\<close> selects an element instead of failing. With three hits loaded, the record of
  index \<open>- 5\<close> is valid and its read raises \<^verbatim>\<open>IndexError\<close>.
\<close>

theorem negative_index_counterexample:
  "isValid (Object_init RecHit (- 5) ''rechit'') \<and>
   tree_getattr demo_at_1 ''rechit_energy'' = Inr (Vector [35, 45, 55]) \<and>
   Object_getattr (Object_init RecHit (- 5) ''rechit'') demo_at_1 ''energy'' = Inl IndexError"
  by (simp add: Object_getattr_def checkIsValid_def isValid_def tree_getattr_def
      demo_at_1_buffers demo_stored_def Object_init_def branch_getitem_def py_index_def)

text \<open>
  C10, amended: \<^verbatim>\<open>isValid()\<close> is false for index \<open>- 1\<close> and true for every other index,
  the other negative ones included. An attribute read on a record of negative index \<open>i\<close>
  other than \<open>- 1\<close>, over a branch that holds a sequence of \<open>n\<close> elements, selects the
  element at position \<open>n + i\<close> when \<open>- n \<le> i\<close> (index \<open>- 2\<close> gives the second-to-last);
  when \<open>i < - n\<close> it raises \<^verbatim>\<open>IndexError\<close>, and \<^verbatim>\<open>OverflowError\<close> when \<open>i\<close> is below
  the signed 64-bit range.
\<close>

theorem negative_index_valid:
  "isValid self = (o_index self \<noteq> - 1) \<and>
   (o_index self < 0 \<and> o_index self \<noteq> - 1 \<and>
    buffers t (o_prefix self @ ''_'' @ attr) = Some (Vector xs) \<longrightarrow>
      Object_getattr self t attr =
        (if o_index self < - 9223372036854775808 then Inl OverflowError
         else if - int (length xs) \<le> o_index self
         then Inr (\<lambda>_. Some (Num (xs ! nat (int (length xs) + o_index self))))
         else Inl IndexError)) \<and>
   (o_index self < 0 \<and> o_index self \<noteq> - 1 \<and>
    buffers t (o_prefix self @ ''_'' @ attr) = Some (Nested xss) \<longrightarrow>
      Object_getattr self t attr =
        (if o_index self < - 9223372036854775808 then Inl OverflowError
         else if - int (length xss) \<le> o_index self
         then Inr (closure (o_prefix self @ ''_'' @ attr)
                     (Ref (nat (int (length xss) + o_index self))))
         else Inl IndexError))"
proof -
  have v: "isValid self = (o_index self \<noteq> - 1)"
    by (simp add: isValid_def)
  have a: "Object_getattr self t attr =
        (if o_index self < - 9223372036854775808 then Inl OverflowError
         else if - int (length xs) \<le> o_index self
         then Inr (\<lambda>_. Some (Num (xs ! nat (int (length xs) + o_index self))))
         else Inl IndexError)"
    if "o_index self < 0" "o_index self \<noteq> - 1"
      "buffers t (o_prefix self @ ''_'' @ attr) = Some (Vector xs)"
    using that
    by (simp add: Object_getattr_def checkIsValid_def isValid_def tree_getattr_def
        branch_getitem_def py_index_def closure_def)
  have b: "Object_getattr self t attr =
        (if o_index self < - 9223372036854775808 then Inl OverflowError
         else if - int (length xss) \<le> o_index self
         then Inr (closure (o_prefix self @ ''_'' @ attr)
                     (Ref (nat (int (length xss) + o_index self))))
         else Inl IndexError)"
    if "o_index self < 0" "o_index self \<noteq> - 1"
      "buffers t (o_prefix self @ ''_'' @ attr) = Some (Nested xss)"
    using that
    by (simp add: Object_getattr_def checkIsValid_def isValid_def tree_getattr_def
        branch_getitem_def py_index_def)
  show ?thesis
    using v a b by blast
qed

theorem negative_index_valid_witness:
  "\<not> isValid (Object_init RecHit (- 1) ''rechit'') \<and>
   isValid (Object_init RecHit (- 2) ''rechit'') \<and>
   Object_getattr (Object_init RecHit (- 2) ''rechit'') demo_at_1 ''energy''
     = Inr (\<lambda>_. Some (Num 45)) \<and>
   Object_getattr (Object_init RecHit (- 5) ''rechit'') demo_at_1 ''energy'' = Inl IndexError \<and>
   Object_getattr (Object_init RecHit (- 9223372036854775809) ''rechit'') demo_at_1 ''energy''
     = Inl OverflowError \<and>
   Object_getattr (Object_init SimCluster (- 2) ''simcluster'') demo_at_1 ''hits''
     = Inr (closure ''simcluster_hits'' (Ref 1))"
  using negative_index_valid [of "Object_init RecHit (- 1) ''rechit''" demo_at_1 "''energy''"
        "[35, 45, 55]" "[]"]
    negative_index_valid [of "Object_init RecHit (- 2) ''rechit''" demo_at_1 "''energy''"
        "[35, 45, 55]" "[]"]
    negative_index_valid [of "Object_init RecHit (- 5) ''rechit''" demo_at_1 "''energy''"
        "[35, 45, 55]" "[]"]
    negative_index_valid [of "Object_init RecHit (- 9223372036854775809) ''rechit''" demo_at_1
        "''energy''" "[35, 45, 55]" "[]"]
    negative_index_valid [of "Object_init SimCluster (- 2) ''simcluster''" demo_at_1 "''hits''"
        "[]" "[[5, 6], [7, 8], [9]]"]
  by (simp add: demo_at_1_buffers demo_stored_def Object_init_def)

section \<open>The entry count\<close>

text \<open>
  C8: \<^verbatim>\<open>nevents()\<close> is the count the tree reported at construction; neither the
  generator nor \<^verbatim>\<open>getEvent\<close> changes it, nor any sequence of them.
\<close>

theorem nevents_fixed:
  "nevents (HGCalNtuple_init (t :: 'v TTree)) = GetEntriesFast t \<and>
   nevents (snd (HGCalNtuple_iter (self :: 'v HGCalNtuple))) = nevents self \<and>
   nevents (snd (getEvent self i)) = nevents self \<and>
   nevents (foldl perform (HGCalNtuple_init t) acts) = GetEntriesFast t"
proof -
  have it: "nevents (snd (HGCalNtuple_iter nt)) = nevents nt" for nt :: "'v HGCalNtuple"
    by (simp add: HGCalNtuple_iter_def nevents_def case_prod_unfold)
  have ge: "nevents (snd (getEvent nt k)) = nevents nt" for nt :: "'v HGCalNtuple" and k
    by (simp add: getEvent_def nevents_def Let_def case_prod_unfold)
  have st: "nevents (perform nt a) = nevents nt" for nt :: "'v HGCalNtuple" and a
    by (cases a) (simp_all add: it ge)
  have fo: "nevents (foldl perform nt acts) = nevents nt" for nt :: "'v HGCalNtuple"
    by (induction acts arbitrary: nt) (simp_all add: st)
  show ?thesis
    using it [of self] ge [of self i] fo [of "HGCalNtuple_init t"]
    by (simp add: nevents_def HGCalNtuple_init_def)
qed

theorem nevents_fixed_witness:
  "nevents demo_ntuple = 5 \<and>
   nevents (foldl perform demo_ntuple [Iterate, GetEvent 3, GetEvent 1]) = 5"
  using nevents_fixed [of demo_tree demo_ntuple 0 "[Iterate, GetEvent 3, GetEvent 1]"]
  by (simp add: demo_ntuple_def HGCalNtuple_init_def demo_tree_def)

end
